theory Spec2Isabelle
  imports Complex_Main
begin

section \<open>Numbers\<close>

text \<open>
  The node computes with Python floats.  Every field the node computes itself starts from
  a finite literal and is modelled as a \<open>real\<close>.  The arithmetic of the position, heading
  and velocity is the exact arithmetic that the float operations round: there rounding
  moves a value by a few units in the last place and nothing else.  The wheel accumulator
  is different: it only ever grows, and once it is large enough the rounding of an addition
  swallows the increment.  Its additions and the product it adds are therefore modelled
  with the rounding written out.  A number that arrives in a message can be any IEEE
  double, so an inbound coordinate is a \<open>pyfloat\<close>, with the three non-finite values
  written out.
\<close>

datatype pyfloat = Finite real | PosInf | NegInf | NaN

fun isfinite :: "pyfloat \<Rightarrow> bool" where
  "isfinite (Finite r) = True"
| "isfinite PosInf = False"
| "isfinite NegInf = False"
| "isfinite NaN = False"

text \<open>
  \<open>math.atan2(b, a)\<close>: the angle of the point \<open>(a, b)\<close>, in \<open>(-\<pi>, \<pi>]\<close>, by quadrant; it is
  defined at the origin, where it returns 0, and never raises.
\<close>

definition atan2 :: "real \<Rightarrow> real \<Rightarrow> real" where
  "atan2 b a =
     (if 0 < a then arctan (b / a)
      else if a < 0 \<and> 0 \<le> b then arctan (b / a) + pi
      else if a < 0 \<and> b < 0 then arctan (b / a) - pi
      else if 0 < b then pi / 2
      else if b < 0 then - (pi / 2)
      else 0)"

text \<open>
  Rounding to a double: the nearest number with a 53-bit significand, ties to the even
  significand.  \<open>round_even\<close> rounds a real to the nearest integer, ties to even;
  \<open>double_round\<close> scales by the unit in the last place of the binade of its argument.
  The exponent range is not limited: the accumulator and its increment stay between
  \<open>2\<^sup>-\<^sup>7\<close> and \<open>2\<^sup>4\<^sup>7\<close>, far from overflow and from the subnormal numbers.
  \<open>float_add\<close> and \<open>float_mul\<close> are Python's \<open>+\<close> and \<open>*\<close> on floats.
\<close>

definition round_even :: "real \<Rightarrow> int" where
  "round_even r =
     (if r - of_int \<lfloor>r\<rfloor> < 1 / 2 then \<lfloor>r\<rfloor>
      else if 1 / 2 < r - of_int \<lfloor>r\<rfloor> then \<lfloor>r\<rfloor> + 1
      else if even \<lfloor>r\<rfloor> then \<lfloor>r\<rfloor> else \<lfloor>r\<rfloor> + 1)"

definition double_round :: "real \<Rightarrow> real" where
  "double_round r =
     (if r = 0 then 0
      else of_int (round_even (r / 2 powr of_int (\<lfloor>log 2 \<bar>r\<bar>\<rfloor> - 52))) *
           2 powr of_int (\<lfloor>log 2 \<bar>r\<bar>\<rfloor> - 52))"

definition float_add :: "real \<Rightarrow> real \<Rightarrow> real" where
  "float_add a b = double_round (a + b)"

definition float_mul :: "real \<Rightarrow> real \<Rightarrow> real" where
  "float_mul a b = double_round (a * b)"

section \<open>Messages\<close>

record 'a vector3 =
  v3_x :: 'a
  v3_y :: 'a
  v3_z :: 'a

record 'a quaternion =
  q_x :: 'a
  q_y :: 'a
  q_z :: 'a
  q_w :: 'a

record transform_stamped =
  ts_stamp :: nat
  ts_frame_id :: string
  ts_child_frame_id :: string
  ts_translation :: "real vector3"
  ts_rotation :: "real quaternion"

record twist =
  tw_linear :: "real vector3"
  tw_angular :: "real vector3"

record joint_state =
  js_stamp :: nat
  js_name :: "string list"
  js_position :: "pyfloat list"

record odometry =
  od_stamp :: nat
  od_child_frame_id :: string
  od_position :: "real vector3"
  od_orientation :: "real quaternion"
  od_twist :: twist

record pose_stamped =
  ps_stamp :: nat
  ps_frame_id :: string
  ps_position :: "pyfloat vector3"
  ps_orientation :: "pyfloat quaternion"

record turtle_pose =
  tp_x :: pyfloat
  tp_y :: pyfloat
  tp_theta :: pyfloat
  tp_linear_velocity :: pyfloat
  tp_angular_velocity :: pyfloat

record tilt =
  tilt_angle :: pyfloat

text \<open>The default values of the message constructors: zeros, and the rotation that does nothing.\<close>

definition Vector3_default :: "real vector3" where
  "Vector3_default = \<lparr>v3_x = 0, v3_y = 0, v3_z = 0\<rparr>"

definition Quaternion_default :: "real quaternion" where
  "Quaternion_default = \<lparr>q_x = 0, q_y = 0, q_z = 0, q_w = 1\<rparr>"

definition TransformStamped :: transform_stamped where
  "TransformStamped =
     \<lparr>ts_stamp = 0, ts_frame_id = [], ts_child_frame_id = [],
      ts_translation = Vector3_default, ts_rotation = Quaternion_default\<rparr>"

definition Twist_default :: twist where
  "Twist_default = \<lparr>tw_linear = Vector3_default, tw_angular = Vector3_default\<rparr>"

definition JointState :: joint_state where
  "JointState = \<lparr>js_stamp = 0, js_name = [], js_position = []\<rparr>"

definition Odometry :: odometry where
  "Odometry =
     \<lparr>od_stamp = 0, od_child_frame_id = [], od_position = Vector3_default,
      od_orientation = Quaternion_default, od_twist = Twist_default\<rparr>"

definition PoseStamped :: pose_stamped where
  "PoseStamped =
     \<lparr>ps_stamp = 0, ps_frame_id = [],
      ps_position = \<lparr>v3_x = Finite 0, v3_y = Finite 0, v3_z = Finite 0\<rparr>,
      ps_orientation = \<lparr>q_x = Finite 0, q_y = Finite 0, q_z = Finite 0, q_w = Finite 1\<rparr>\<rparr>"

definition Pose :: turtle_pose where
  "Pose =
     \<lparr>tp_x = Finite 0, tp_y = Finite 0, tp_theta = Finite 0,
      tp_linear_velocity = Finite 0, tp_angular_velocity = Finite 0\<rparr>"

text \<open>What the node sends, in the order it sends it.\<close>

datatype sent =
    Static_tf transform_stamped
  | Log_info string
  | Joint_states joint_state
  | Tf transform_stamped
  | Odom odometry
  | Cmd_vel twist

section \<open>The orientation helper\<close>

text \<open>
  Modelled from the spec: \<open>angle_axis_to_quaternion\<close> is imported from the module
  \<open>quaternion\<close> of the package, which is not among the sources.  The spec gives its
  contract: for an angle \<open>a\<close> and a unit axis \<open>v\<close> the rotation is
  \<open>q = (cos(a/2), sin(a/2)\<cdot>v)\<close>, scalar part first.
\<close>

definition angle_axis_to_quaternion :: "real \<Rightarrow> real \<times> real \<times> real \<Rightarrow> real quaternion" where
  "angle_axis_to_quaternion a v =
     (case v of (v0, v1, v2) \<Rightarrow>
        \<lparr>q_x = sin (a / 2) * v0, q_y = sin (a / 2) * v1, q_z = sin (a / 2) * v2,
         q_w = cos (a / 2)\<rparr>)"

section \<open>The node\<close>

definition turtle_twist :: "real \<Rightarrow> real \<Rightarrow> real \<Rightarrow> twist" where
  "turtle_twist xdot ydot omega =
     \<lparr>tw_linear = \<lparr>v3_x = xdot, v3_y = ydot, v3_z = 0\<rparr>,
      tw_angular = \<lparr>v3_x = 0, v3_y = 0, v3_z = omega\<rparr>\<rparr>"

text \<open>
  The fields of \<open>RunTurtle\<close>.  \<open>turtlepose\<close> does not exist before the first pose
  observation: the constructor creates \<open>pose\<close>, the handler writes \<open>turtlepose\<close>.
\<close>

record run_turtle =
  wheel_pos :: real
  tip_pos :: pyfloat
  tip :: bool
  x :: real
  y :: real
  z :: real
  theta :: real
  world_odom_x :: real
  world_odom_y :: real
  world_odom_z :: real
  wheel_radius :: real
  world_targetX :: real
  world_targetY :: real
  targetX :: real
  targetY :: real
  wheel_omg :: real
  swivel_omg :: real
  vx :: real
  vy :: real
  frequency :: real
  dt :: real
  goalpose :: pose_stamped
  pose :: turtle_pose
  turtlepose :: "turtle_pose option"

text \<open>
  \<open>RunTurtle.__init__\<close>, at the clock reading \<open>now\<close>: the static transform is filled in,
  sent and logged, and the fields are set.
\<close>

definition RunTurtle_init :: "nat \<Rightarrow> run_turtle \<times> sent list" where
  "RunTurtle_init now =
     (let world_odom_tf = TransformStamped
            \<lparr>ts_stamp := now, ts_frame_id := ''world'', ts_child_frame_id := ''odom''\<rparr>;
          c_world_odom_x = 5.55;
          c_world_odom_y = 5.55;
          c_world_odom_z = 0;
          world_odom_tf = world_odom_tf
            \<lparr>ts_translation :=
               \<lparr>v3_x = c_world_odom_x, v3_y = c_world_odom_y, v3_z = c_world_odom_z\<rparr>\<rparr>;
          c_wheel_radius = 0.2 * 1.618;
          c_world_targetX = 9;
          c_world_targetY = 7;
          c_theta = 0;
          c_wheel_omg = 0.8;
          c_frequency = 100.0
      in (\<lparr>wheel_pos = 0, tip_pos = Finite 0, tip = False,
           x = 0, y = 0, z = 0, theta = c_theta,
           world_odom_x = c_world_odom_x, world_odom_y = c_world_odom_y,
           world_odom_z = c_world_odom_z,
           wheel_radius = c_wheel_radius,
           world_targetX = c_world_targetX, world_targetY = c_world_targetY,
           targetX = c_world_targetX - c_world_odom_x,
           targetY = c_world_targetY - c_world_odom_y,
           wheel_omg = c_wheel_omg, swivel_omg = 0.0,
           vx = c_wheel_radius * c_wheel_omg * cos c_theta,
           vy = c_wheel_radius * c_wheel_omg * sin c_theta,
           frequency = c_frequency, dt = 1 / c_frequency,
           goalpose = PoseStamped, pose = Pose, turtlepose = None\<rparr>,
          [Static_tf world_odom_tf, Log_info ''Static Transform: world->odom'']))"

text \<open>
  \<open>RunTurtle.timer_callback\<close>, at the clock reading \<open>time\<close>.  The assignments to the
  fields come first, in the order of the source; the four messages are then built from
  the updated fields and published.
\<close>

definition update_fields :: "run_turtle \<Rightarrow> run_turtle" where
  "update_fields s =
     (let s = s\<lparr>wheel_pos := float_add (wheel_pos s) (float_mul (wheel_omg s) (dt s))\<rparr>;
          s = s\<lparr>wheel_pos := float_add (wheel_pos s) (float_mul (wheel_omg s) (dt s))\<rparr>;
          s = s\<lparr>x := x s + vx s * dt s\<rparr>;
          s = s\<lparr>y := y s + vy s * dt s\<rparr>;
          s = s\<lparr>theta := atan2 (targetY s - y s) (targetX s - x s)\<rparr>;
          s = s\<lparr>vx := wheel_radius s * wheel_omg s * cos (theta s)\<rparr>;
          s = s\<lparr>vy := wheel_radius s * wheel_omg s * sin (theta s)\<rparr>
      in s)"

definition joints_states_msg :: "nat \<Rightarrow> run_turtle \<Rightarrow> joint_state" where
  "joints_states_msg time s =
     JointState
       \<lparr>js_stamp := time,
        js_name := [''wheel_axle'', ''swivel'', ''tip''],
        js_position := [Finite (wheel_pos s), Finite (theta s), tip_pos s]\<rparr>"

definition odom_base :: "nat \<Rightarrow> run_turtle \<Rightarrow> transform_stamped" where
  "odom_base time s =
     (let m = TransformStamped
            \<lparr>ts_stamp := time, ts_frame_id := ''odom'', ts_child_frame_id := ''base_link''\<rparr>;
          m = m\<lparr>ts_translation := (ts_translation m)\<lparr>v3_x := x s\<rparr>\<rparr>;
          m = m\<lparr>ts_translation := (ts_translation m)\<lparr>v3_y := y s\<rparr>\<rparr>;
          m = m\<lparr>ts_rotation := angle_axis_to_quaternion 0 (0, 0, 1)\<rparr>
      in m)"

definition odometry_msg :: "nat \<Rightarrow> run_turtle \<Rightarrow> odometry" where
  "odometry_msg time s =
     (let m = Odometry\<lparr>od_stamp := time, od_child_frame_id := ''base_link''\<rparr>;
          m = m\<lparr>od_position := \<lparr>v3_x = x s, v3_y = y s, v3_z = z s\<rparr>\<rparr>;
          m = m\<lparr>od_orientation := angle_axis_to_quaternion 0 (0, 0, 1)\<rparr>;
          m = m\<lparr>od_twist := (od_twist m)
                \<lparr>tw_linear := (tw_linear (od_twist m))\<lparr>v3_x := vx s\<rparr>\<rparr>\<rparr>;
          m = m\<lparr>od_twist := (od_twist m)
                \<lparr>tw_linear := (tw_linear (od_twist m))\<lparr>v3_y := vy s\<rparr>\<rparr>\<rparr>;
          m = m\<lparr>od_twist := (od_twist m)
                \<lparr>tw_angular := (tw_angular (od_twist m))\<lparr>v3_z := swivel_omg s\<rparr>\<rparr>\<rparr>
      in m)"

definition timer_callback :: "nat \<Rightarrow> run_turtle \<Rightarrow> run_turtle \<times> sent list" where
  "timer_callback time s =
     (let s = update_fields s;
          cmdvel_msg = turtle_twist (vx s) (vy s) (swivel_omg s)
      in (s, [Joint_states (joints_states_msg time s), Tf (odom_base time s),
              Odom (odometry_msg time s), Cmd_vel cmdvel_msg]))"

text \<open>The three subscription handlers.  Each stores what it received and sends nothing.\<close>

definition update_goalpose :: "pose_stamped \<Rightarrow> run_turtle \<Rightarrow> run_turtle \<times> sent list" where
  "update_goalpose data s = (s\<lparr>goalpose := data\<rparr>, [])"

definition update_turtlepose :: "turtle_pose \<Rightarrow> run_turtle \<Rightarrow> run_turtle \<times> sent list" where
  "update_turtlepose data s = (s\<lparr>turtlepose := Some data\<rparr>, [])"

definition update_tilt :: "tilt \<Rightarrow> run_turtle \<Rightarrow> run_turtle \<times> sent list" where
  "update_tilt data s = (s\<lparr>tip_pos := tilt_angle data\<rparr>, [])"

text \<open>
  \<open>main\<close>: the node is constructed and \<open>rclpy.spin\<close> then runs one callback per event, in
  the order the events arrive.  The outputs are collected in the order they are sent.
\<close>

datatype event =
    Timer nat
  | Goal_pose pose_stamped
  | Turtle1_pose turtle_pose
  | Tilt tilt

fun dispatch :: "event \<Rightarrow> run_turtle \<Rightarrow> run_turtle \<times> sent list" where
  "dispatch (Timer time) s = timer_callback time s"
| "dispatch (Goal_pose data) s = update_goalpose data s"
| "dispatch (Turtle1_pose data) s = update_turtlepose data s"
| "dispatch (Tilt data) s = update_tilt data s"

fun spin :: "event list \<Rightarrow> run_turtle \<times> sent list \<Rightarrow> run_turtle \<times> sent list" where
  "spin [] node = node"
| "spin (e # es) node =
     (case dispatch e (fst node) of (s, out) \<Rightarrow> spin es (s, snd node @ out))"

definition main :: "nat \<Rightarrow> event list \<Rightarrow> run_turtle \<times> sent list" where
  "main now es = spin es (RunTurtle_init now)"

text \<open>Which events are ticks, which messages are static transforms, and the angular
  velocity a message carries: the observations the properties below are stated with.\<close>

fun is_timer :: "event \<Rightarrow> bool" where
  "is_timer (Timer time) = True"
| "is_timer e = False"

fun is_static_tf :: "sent \<Rightarrow> bool" where
  "is_static_tf (Static_tf m) = True"
| "is_static_tf m = False"

fun angular_rates :: "sent \<Rightarrow> real vector3 list" where
  "angular_rates (Odom m) = [tw_angular (od_twist m)]"
| "angular_rates (Cmd_vel m) = [tw_angular m]"
| "angular_rates m = []"

section \<open>Rounding to a double\<close>

lemma round_even_of_int: "round_even (of_int k) = k"
  by (simp add: round_even_def)

lemma round_even_mono: "a \<le> b \<Longrightarrow> round_even a \<le> round_even b"
proof -
  assume ab: "a \<le> b"
  have fl: "\<lfloor>a\<rfloor> \<le> \<lfloor>b\<rfloor>" using ab by (rule floor_mono)
  have lo: "\<lfloor>b\<rfloor> \<le> round_even b" by (simp add: round_even_def)
  have hi: "round_even a \<le> \<lfloor>a\<rfloor> + 1" by (simp add: round_even_def)
  show ?thesis
  proof (cases "\<lfloor>a\<rfloor> = \<lfloor>b\<rfloor>")
    case True
    with ab show ?thesis by (auto simp: round_even_def)
  next
    case False
    with fl have "\<lfloor>a\<rfloor> + 1 \<le> \<lfloor>b\<rfloor>" by simp
    with lo hi show ?thesis by linarith
  qed
qed

lemma round_even_near: "\<bar>of_int (round_even r) - r\<bar> \<le> 1 / 2"
  unfolding round_even_def by (auto simp: abs_le_iff)

lemma binade:
  assumes "0 < r"
  shows "2 powr of_int \<lfloor>log 2 r\<rfloor> \<le> r" "r < 2 powr of_int (\<lfloor>log 2 r\<rfloor> + 1)"
proof -
  have "of_int \<lfloor>log 2 r\<rfloor> \<le> log 2 r" by (rule of_int_floor_le)
  then show "2 powr of_int \<lfloor>log 2 r\<rfloor> \<le> r"
    using assms le_log_iff [of 2 r "of_int \<lfloor>log 2 r\<rfloor>"] by simp
  have "log 2 r < of_int (\<lfloor>log 2 r\<rfloor> + 1)" by linarith
  then show "r < 2 powr of_int (\<lfloor>log 2 r\<rfloor> + 1)"
    using assms log_less_iff [of 2 r "of_int (\<lfloor>log 2 r\<rfloor> + 1)"] by simp
qed

lemma binade_unique:
  assumes "2 powr of_int k \<le> r" "r < 2 powr of_int (k + 1)"
  shows "\<lfloor>log 2 r\<rfloor> = k"
proof -
  have pos: "0 < r" using assms(1) powr_gt_zero [of 2 "of_int k"] by linarith
  have "of_int k \<le> log 2 r" using assms(1) pos by (simp add: le_log_iff)
  moreover have "log 2 r < of_int k + 1" using assms(2) pos by (simp add: log_less_iff)
  ultimately show ?thesis by (simp add: floor_unique)
qed

lemma ulp_scale:
  "2 powr of_int (k - 52) * of_int (2 ^ 52) = (2::real) powr of_int k"
  "2 powr of_int (k - 52) * of_int (2 ^ 53) = (2::real) powr of_int (k + 1)"
proof -
  have a: "(2::real) powr of_int (k - 52) * 2 powr 52 = 2 powr of_int k"
    unfolding powr_add [symmetric] by simp
  have b: "(2::real) powr of_int (k - 52) * 2 powr 53 = 2 powr of_int (k + 1)"
    unfolding powr_add [symmetric] by (simp add: add.commute)
  have c: "(2::real) powr 52 = of_int (2 ^ 52)" "(2::real) powr 53 = of_int (2 ^ 53)"
    by simp_all
  show "2 powr of_int (k - 52) * of_int (2 ^ 52) = (2::real) powr of_int k"
    using a unfolding c .
  show "2 powr of_int (k - 52) * of_int (2 ^ 53) = (2::real) powr of_int (k + 1)"
    using b unfolding c .
qed

lemma significand_range:
  assumes "0 < r"
  shows "2 ^ 52 \<le> round_even (r / 2 powr of_int (\<lfloor>log 2 r\<rfloor> - 52))"
    and "round_even (r / 2 powr of_int (\<lfloor>log 2 r\<rfloor> - 52)) \<le> 2 ^ 53"
proof -
  let ?u = "(2::real) powr of_int (\<lfloor>log 2 r\<rfloor> - 52)"
  have u: "0 < ?u" by simp
  have "?u * of_int (2 ^ 52) \<le> r"
    unfolding ulp_scale by (rule binade(1) [OF assms])
  then have "of_int (2 ^ 52) \<le> r / ?u"
    using u by (simp only: pos_le_divide_eq mult.commute)
  from round_even_mono [OF this] show "2 ^ 52 \<le> round_even (r / ?u)"
    by (simp only: round_even_of_int)
  have "r \<le> ?u * of_int (2 ^ 53)"
    unfolding ulp_scale using binade(2) [OF assms] by (rule less_imp_le)
  then have "r / ?u \<le> of_int (2 ^ 53)"
    using u by (simp only: pos_divide_le_eq mult.commute)
  from round_even_mono [OF this] show "round_even (r / ?u) \<le> 2 ^ 53"
    by (simp only: round_even_of_int)
qed

lemma double_round_binade:
  assumes "0 < r"
  shows "2 powr of_int \<lfloor>log 2 r\<rfloor> \<le> double_round r"
    and "double_round r \<le> 2 powr of_int (\<lfloor>log 2 r\<rfloor> + 1)"
proof -
  let ?u = "(2::real) powr of_int (\<lfloor>log 2 r\<rfloor> - 52)"
  let ?m = "round_even (r / ?u)"
  have u: "0 \<le> ?u" by simp
  have dr: "double_round r = ?u * of_int ?m"
    using assms by (simp add: double_round_def)
  have "(of_int (2 ^ 52) :: real) \<le> of_int ?m"
    using significand_range(1) [OF assms] by (simp only: of_int_le_iff)
  then have "?u * of_int (2 ^ 52) \<le> ?u * of_int ?m"
    using u by (rule mult_left_mono)
  then show "2 powr of_int \<lfloor>log 2 r\<rfloor> \<le> double_round r"
    unfolding dr ulp_scale .
  have "(of_int ?m :: real) \<le> of_int (2 ^ 53)"
    using significand_range(2) [OF assms] by (simp only: of_int_le_iff)
  then have "?u * of_int ?m \<le> ?u * of_int (2 ^ 53)"
    using u by (rule mult_left_mono)
  then show "double_round r \<le> 2 powr of_int (\<lfloor>log 2 r\<rfloor> + 1)"
    unfolding dr ulp_scale .
qed

lemma double_round_pos: "0 < r \<Longrightarrow> 0 < double_round r"
  using double_round_binade(1) [of r] powr_gt_zero [of 2 "of_int \<lfloor>log 2 r\<rfloor>"] by linarith

lemma double_round_mono:
  assumes "0 \<le> a" "a \<le> b"
  shows "double_round a \<le> double_round b"
proof (cases "a = 0")
  case True
  show ?thesis
  proof (cases "b = 0")
    case True
    with \<open>a = 0\<close> show ?thesis by simp
  next
    case False
    with assms have "0 < b" by simp
    from double_round_pos [OF this] \<open>a = 0\<close> show ?thesis by (simp add: double_round_def)
  qed
next
  case False
  with assms have a: "0 < a" and b: "0 < b" by simp_all
  have le: "\<lfloor>log 2 a\<rfloor> \<le> \<lfloor>log 2 b\<rfloor>"
    using a assms(2) by (intro floor_mono) simp
  show ?thesis
  proof (cases "\<lfloor>log 2 a\<rfloor> = \<lfloor>log 2 b\<rfloor>")
    case True
    let ?u = "(2::real) powr of_int (\<lfloor>log 2 b\<rfloor> - 52)"
    have u: "0 < ?u" by simp
    have "a / ?u \<le> b / ?u" using assms(2) u by (simp add: divide_right_mono)
    from round_even_mono [OF this]
    have "(of_int (round_even (a / ?u)) :: real) \<le> of_int (round_even (b / ?u))" by simp
    then have "of_int (round_even (a / ?u)) * ?u \<le> of_int (round_even (b / ?u)) * ?u"
      using u by simp
    then show ?thesis using a b True by (simp add: double_round_def)
  next
    case False
    with le have "\<lfloor>log 2 a\<rfloor> + 1 \<le> \<lfloor>log 2 b\<rfloor>" by simp
    then have "(2::real) powr of_int (\<lfloor>log 2 a\<rfloor> + 1) \<le> 2 powr of_int \<lfloor>log 2 b\<rfloor>"
      by (intro powr_mono) simp_all
    with double_round_binade(2) [OF a] double_round_binade(1) [OF b]
    show ?thesis by linarith
  qed
qed

lemma double_round_exact:
  assumes "2 ^ 52 \<le> m" "m < 2 ^ 53"
  shows "double_round (2 powr of_int (k - 52) * of_int m) = 2 powr of_int (k - 52) * of_int m"
proof -
  let ?u = "(2::real) powr of_int (k - 52)"
  let ?d = "?u * of_int m"
  have u: "0 < ?u" by simp
  have "(of_int (2 ^ 52) :: real) \<le> of_int m" using assms(1) by (simp only: of_int_le_iff)
  then have "?u * of_int (2 ^ 52) \<le> ?d" using u by (simp only: mult_le_cancel_left_pos)
  then have lo: "2 powr of_int k \<le> ?d" unfolding ulp_scale .
  have "(of_int m :: real) < of_int (2 ^ 53)" using assms(2) by (simp only: of_int_less_iff)
  then have "?d < ?u * of_int (2 ^ 53)" using u by (simp only: mult_less_cancel_left_pos)
  then have hi: "?d < 2 powr of_int (k + 1)" unfolding ulp_scale .
  have e: "\<lfloor>log 2 ?d\<rfloor> = k" using lo hi by (rule binade_unique)
  have pos: "0 < ?d" using lo powr_gt_zero [of 2 "of_int k"] by linarith
  then have abs: "\<bar>?d\<bar> = ?d" by simp
  have q: "?d / ?u = of_int m" using u by simp
  have ne: "?d \<noteq> 0" using pos by (rule less_imp_neq [symmetric])
  have "double_round ?d = of_int (round_even (?d / ?u)) * ?u"
    unfolding double_round_def abs e if_not_P [OF ne] ..
  also have "\<dots> = of_int m * ?u" unfolding q round_even_of_int ..
  finally show ?thesis by (simp only: mult.commute)
qed

lemma double_round_idem:
  assumes "0 \<le> r"
  shows "double_round (double_round r) = double_round r"
proof (cases "r = 0")
  case True
  then show ?thesis by (simp add: double_round_def)
next
  case False
  with assms have r: "0 < r" by simp
  let ?k = "\<lfloor>log 2 r\<rfloor>"
  let ?u = "(2::real) powr of_int (?k - 52)"
  let ?m = "round_even (r / ?u)"
  have dr: "double_round r = ?u * of_int ?m" using r by (simp add: double_round_def)
  show ?thesis
  proof (cases "?m < 2 ^ 53")
    case True
    from double_round_exact [OF significand_range(1) [OF r] True, of ?k]
    show ?thesis unfolding dr .
  next
    case False
    with significand_range(2) [OF r] have m: "?m = 2 ^ 53" by simp
    have "double_round r = 2 powr of_int (?k + 1)" unfolding dr m ulp_scale ..
    also have "\<dots> = 2 powr of_int (?k + 1 - 52) * of_int (2 ^ 52)"
      unfolding ulp_scale ..
    finally have eq: "double_round r = 2 powr of_int (?k + 1 - 52) * of_int (2 ^ 52)" .
    have "double_round (2 powr of_int (?k + 1 - 52) * of_int (2 ^ 52)) =
          2 powr of_int (?k + 1 - 52) * of_int (2 ^ 52)"
      by (rule double_round_exact) simp_all
    then show ?thesis unfolding eq .
  qed
qed

lemma double_round_absorbs:
  assumes "0 \<le> c" "c \<le> 1 / 64"
  shows "double_round (2 ^ 47 + c) = 2 ^ 47"
proof -
  let ?y = "2 ^ 47 + c :: real"
  have p: "(2::real) powr of_int 47 = 2 ^ 47" "(2::real) powr of_int (47 + 1) = 2 ^ 48"
    by simp_all
  have "2 powr of_int 47 \<le> ?y" "?y < 2 powr of_int (47 + 1)"
    unfolding p using assms by simp_all
  then have e: "\<lfloor>log 2 ?y\<rfloor> = 47" by (rule binade_unique)
  have u: "(2::real) powr of_int (47 - 52) = 1 / 32"
    by (simp add: powr_minus_divide)
  have pos: "0 < ?y" using assms by simp
  then have abs: "\<bar>?y\<bar> = ?y" by simp
  have q: "?y / (1 / 32) = of_int (2 ^ 52) + 32 * c" by simp
  have fl: "\<lfloor>of_int (2 ^ 52) + 32 * c\<rfloor> = 2 ^ 52"
    using assms by (intro floor_unique) simp_all
  have "round_even (of_int (2 ^ 52) + 32 * c) = 2 ^ 52"
    unfolding round_even_def fl using assms by simp
  then have "double_round ?y = of_int (2 ^ 52) * (1 / 32)"
    using pos unfolding double_round_def abs e u q by simp
  then show ?thesis by simp
qed

lemma double_round_0008:
  "1 / 128 \<le> double_round 0.008" "double_round 0.008 \<le> 1 / 64"
proof -
  have "(2::real) powr of_int (- 7) \<le> 0.008" "(0.008::real) < 2 powr of_int (- 7 + 1)"
    by (simp_all add: powr_minus_divide)
  then have e: "\<lfloor>log 2 (0.008::real)\<rfloor> = - 7" by (rule binade_unique)
  have "0 < (0.008::real)" by simp
  from double_round_binade [OF this, unfolded e]
  show "1 / 128 \<le> double_round 0.008" "double_round 0.008 \<le> 1 / 64"
    by (simp_all add: powr_minus_divide)
qed

section \<open>What one tick does to each field\<close>

lemma update_fields_wheel_pos:
  "wheel_pos (update_fields s) =
     float_add (float_add (wheel_pos s) (float_mul (wheel_omg s) (dt s)))
       (float_mul (wheel_omg s) (dt s))"
  by (simp add: update_fields_def Let_def)

lemma update_fields_x: "x (update_fields s) = x s + vx s * dt s"
  by (simp add: update_fields_def Let_def)

lemma update_fields_y: "y (update_fields s) = y s + vy s * dt s"
  by (simp add: update_fields_def Let_def)

lemma update_fields_theta:
  "theta (update_fields s) =
     atan2 (targetY s - (y s + vy s * dt s)) (targetX s - (x s + vx s * dt s))"
  by (simp add: update_fields_def Let_def)

lemma update_fields_vx:
  "vx (update_fields s) = wheel_radius s * wheel_omg s * cos (theta (update_fields s))"
  by (simp add: update_fields_def Let_def)

lemma update_fields_vy:
  "vy (update_fields s) = wheel_radius s * wheel_omg s * sin (theta (update_fields s))"
  by (simp add: update_fields_def Let_def)

lemma update_fields_frame:
  "tip_pos (update_fields s) = tip_pos s"
  "tip (update_fields s) = tip s"
  "z (update_fields s) = z s"
  "world_odom_x (update_fields s) = world_odom_x s"
  "world_odom_y (update_fields s) = world_odom_y s"
  "world_odom_z (update_fields s) = world_odom_z s"
  "wheel_radius (update_fields s) = wheel_radius s"
  "world_targetX (update_fields s) = world_targetX s"
  "world_targetY (update_fields s) = world_targetY s"
  "targetX (update_fields s) = targetX s"
  "targetY (update_fields s) = targetY s"
  "wheel_omg (update_fields s) = wheel_omg s"
  "swivel_omg (update_fields s) = swivel_omg s"
  "frequency (update_fields s) = frequency s"
  "dt (update_fields s) = dt s"
  "goalpose (update_fields s) = goalpose s"
  "pose (update_fields s) = pose s"
  "turtlepose (update_fields s) = turtlepose s"
  by (simp_all add: update_fields_def Let_def)

lemma fst_timer_callback: "fst (timer_callback time s) = update_fields s"
  by (simp add: timer_callback_def Let_def)

lemma snd_timer_callback:
  "snd (timer_callback time s) =
     [Joint_states (joints_states_msg time (update_fields s)),
      Tf (odom_base time (update_fields s)),
      Odom (odometry_msg time (update_fields s)),
      Cmd_vel (turtle_twist (vx (update_fields s)) (vy (update_fields s))
                 (swivel_omg (update_fields s)))]"
  by (simp add: timer_callback_def Let_def)

lemma init_fields:
  "wheel_pos (fst (RunTurtle_init now)) = 0"
  "x (fst (RunTurtle_init now)) = 0"
  "y (fst (RunTurtle_init now)) = 0"
  "z (fst (RunTurtle_init now)) = 0"
  "theta (fst (RunTurtle_init now)) = 0"
  "world_odom_x (fst (RunTurtle_init now)) = 5.55"
  "world_odom_y (fst (RunTurtle_init now)) = 5.55"
  "world_odom_z (fst (RunTurtle_init now)) = 0"
  "wheel_radius (fst (RunTurtle_init now)) = 0.3236"
  "targetX (fst (RunTurtle_init now)) = 3.45"
  "targetY (fst (RunTurtle_init now)) = 1.45"
  "wheel_omg (fst (RunTurtle_init now)) = 0.8"
  "swivel_omg (fst (RunTurtle_init now)) = 0"
  "vx (fst (RunTurtle_init now)) = 0.25888"
  "vy (fst (RunTurtle_init now)) = 0"
  "dt (fst (RunTurtle_init now)) = 0.01"
  "goalpose (fst (RunTurtle_init now)) = PoseStamped"
  "tip_pos (fst (RunTurtle_init now)) = Finite 0"
  by (simp_all add: RunTurtle_init_def Let_def)

lemma spin_snoc:
  "spin (es @ [e]) node =
     (fst (dispatch e (fst (spin es node))), snd (spin es node) @ snd (dispatch e (fst (spin es node))))"
  by (induction es arbitrary: node) (simp_all split: prod.splits)

section \<open>What holds after every sequence of events\<close>

lemma spin_invariant:
  assumes "P (fst node)" and "\<And>e s. P s \<Longrightarrow> P (fst (dispatch e s))"
  shows "P (fst (spin es node))"
  using assms(1)
proof (induction es arbitrary: node)
  case Nil
  then show ?case by simp
next
  case (Cons e es)
  have "P (fst (dispatch e (fst node)))" using Cons.prems assms(2) by blast
  then have "P (fst (fst (dispatch e (fst node)), snd node @ snd (dispatch e (fst node))))"
    by simp
  from Cons.IH [OF this] show ?case by (simp add: case_prod_beta)
qed

lemma dispatch_constants:
  "wheel_omg (fst (dispatch e s)) = wheel_omg s"
  "dt (fst (dispatch e s)) = dt s"
  "wheel_radius (fst (dispatch e s)) = wheel_radius s"
  "swivel_omg (fst (dispatch e s)) = swivel_omg s"
  "targetX (fst (dispatch e s)) = targetX s"
  "targetY (fst (dispatch e s)) = targetY s"
  "world_odom_x (fst (dispatch e s)) = world_odom_x s"
  "world_odom_y (fst (dispatch e s)) = world_odom_y s"
  "world_odom_z (fst (dispatch e s)) = world_odom_z s"
  by (cases e; simp add: fst_timer_callback update_fields_frame update_goalpose_def
        update_turtlepose_def update_tilt_def)+

lemma main_constants:
  "wheel_omg (fst (main now es)) = 0.8"
  "dt (fst (main now es)) = 0.01"
  "wheel_radius (fst (main now es)) = 0.3236"
  "swivel_omg (fst (main now es)) = 0"
  "targetX (fst (main now es)) = 3.45"
  "targetY (fst (main now es)) = 1.45"
  "world_odom_x (fst (main now es)) = 5.55"
  "world_odom_y (fst (main now es)) = 5.55"
  "world_odom_z (fst (main now es)) = 0"
  unfolding main_def
  by (rule spin_invariant; simp add: dispatch_constants init_fields)+

lemma dispatch_velocity:
  assumes "vx s = wheel_radius s * wheel_omg s * cos (theta s)"
      and "vy s = wheel_radius s * wheel_omg s * sin (theta s)"
  shows "vx (fst (dispatch e s)) =
           wheel_radius (fst (dispatch e s)) * wheel_omg (fst (dispatch e s)) *
           cos (theta (fst (dispatch e s)))
       \<and> vy (fst (dispatch e s)) =
           wheel_radius (fst (dispatch e s)) * wheel_omg (fst (dispatch e s)) *
           sin (theta (fst (dispatch e s)))"
  using assms
  by (cases e) (simp_all add: fst_timer_callback update_fields_frame update_fields_vx
        update_fields_vy update_goalpose_def update_turtlepose_def update_tilt_def)

lemma main_velocity:
  "vx (fst (main now es)) =
     wheel_radius (fst (main now es)) * wheel_omg (fst (main now es)) *
     cos (theta (fst (main now es)))
   \<and> vy (fst (main now es)) =
     wheel_radius (fst (main now es)) * wheel_omg (fst (main now es)) *
     sin (theta (fst (main now es)))"
  unfolding main_def
  by (rule spin_invariant [where P = "\<lambda>s. vx s = wheel_radius s * wheel_omg s * cos (theta s)
          \<and> vy s = wheel_radius s * wheel_omg s * sin (theta s)"])
     (simp_all add: init_fields dispatch_velocity)

lemma atan2_origin: "atan2 0 0 = 0"
  by (simp add: atan2_def)

lemma main_snoc:
  "main now (es @ [e]) =
     (fst (dispatch e (fst (main now es))),
      snd (main now es) @ snd (dispatch e (fst (main now es))))"
  by (simp add: main_def spin_snoc)

lemma double_round_error:
  assumes "0 < r"
  shows "\<bar>double_round r - r\<bar> \<le> r / 2 ^ 53"
proof -
  let ?u = "(2::real) powr of_int (\<lfloor>log 2 r\<rfloor> - 52)"
  let ?m = "round_even (r / ?u)"
  have u: "0 < ?u" by simp
  have dr: "double_round r = of_int ?m * ?u" using assms by (simp add: double_round_def)
  have "of_int ?m * ?u - r = (of_int ?m - r / ?u) * ?u" using u by (simp add: field_simps)
  then have "\<bar>double_round r - r\<bar> = \<bar>of_int ?m - r / ?u\<bar> * ?u"
    unfolding dr using u by (simp add: abs_mult)
  also have "\<dots> \<le> 1 / 2 * ?u"
    using round_even_near [of "r / ?u"] u by (intro mult_right_mono) simp_all
  finally have a: "\<bar>double_round r - r\<bar> \<le> ?u / 2" by simp
  have "?u * of_int (2 ^ 52) \<le> r" unfolding ulp_scale by (rule binade(1) [OF assms])
  then have "?u / 2 \<le> r / 2 ^ 53" by simp
  with a show ?thesis by linarith
qed

lemma increment_bounds:
  "1 / 128 \<le> float_mul 0.8 0.01" "float_mul 0.8 0.01 \<le> 1 / 64"
  using double_round_0008 by (simp_all add: float_mul_def)

lemma accumulate_step:
  assumes "0 \<le> w" "double_round w = w" "w \<le> 2 ^ 47" "0 \<le> c" "c \<le> 1 / 64"
  shows "w \<le> float_add w c" and "0 \<le> float_add w c"
    and "double_round (float_add w c) = float_add w c" and "float_add w c \<le> 2 ^ 47"
proof -
  have "double_round w \<le> double_round (w + c)"
    using assms(1,4) by (intro double_round_mono) simp_all
  then show up: "w \<le> float_add w c" unfolding assms(2) float_add_def .
  with assms(1) show "0 \<le> float_add w c" by simp
  show "double_round (float_add w c) = float_add w c"
    unfolding float_add_def using assms(1,4) by (intro double_round_idem) simp
  have "double_round (w + c) \<le> double_round (2 ^ 47 + c)"
    using assms(1,3,4) by (intro double_round_mono) simp_all
  then show "float_add w c \<le> 2 ^ 47"
    unfolding float_add_def double_round_absorbs [OF assms(4,5)] .
qed

lemma accumulate_twice:
  assumes "0 \<le> w" "double_round w = w" "w \<le> 2 ^ 47" "0 \<le> c" "c \<le> 1 / 64"
  shows "w \<le> float_add (float_add w c) c" and "0 \<le> float_add (float_add w c) c"
    and "double_round (float_add (float_add w c) c) = float_add (float_add w c) c"
    and "float_add (float_add w c) c \<le> 2 ^ 47"
proof -
  note one = accumulate_step [OF assms]
  note two = accumulate_step [OF one(2) one(3) one(4) assms(4,5)]
  from one(1) two(1) show "w \<le> float_add (float_add w c) c" by simp
  from two show "0 \<le> float_add (float_add w c) c"
    and "double_round (float_add (float_add w c) c) = float_add (float_add w c) c"
    and "float_add (float_add w c) c \<le> 2 ^ 47" by simp_all
qed

lemma dispatch_wheel_pos:
  assumes "wheel_omg s = 0.8" "dt s = 0.01"
    and "0 \<le> wheel_pos s" "double_round (wheel_pos s) = wheel_pos s" "wheel_pos s \<le> 2 ^ 47"
  shows "wheel_pos s \<le> wheel_pos (fst (dispatch e s))"
    and "0 \<le> wheel_pos (fst (dispatch e s))"
    and "double_round (wheel_pos (fst (dispatch e s))) = wheel_pos (fst (dispatch e s))"
    and "wheel_pos (fst (dispatch e s)) \<le> 2 ^ 47"
proof -
  have c: "0 \<le> float_mul (wheel_omg s) (dt s)" "float_mul (wheel_omg s) (dt s) \<le> 1 / 64"
    unfolding assms(1,2) using increment_bounds by simp_all
  note tick = accumulate_twice [OF assms(3,4,5) c]
  show "wheel_pos s \<le> wheel_pos (fst (dispatch e s))"
    using tick(1)
    by (cases e) (simp_all add: fst_timer_callback update_fields_wheel_pos update_goalpose_def
          update_turtlepose_def update_tilt_def)
  show "0 \<le> wheel_pos (fst (dispatch e s))"
    using tick(2) assms(3)
    by (cases e) (simp_all add: fst_timer_callback update_fields_wheel_pos update_goalpose_def
          update_turtlepose_def update_tilt_def)
  show "double_round (wheel_pos (fst (dispatch e s))) = wheel_pos (fst (dispatch e s))"
    using tick(3) assms(4)
    by (cases e) (simp_all add: fst_timer_callback update_fields_wheel_pos update_goalpose_def
          update_turtlepose_def update_tilt_def)
  show "wheel_pos (fst (dispatch e s)) \<le> 2 ^ 47"
    using tick(4) assms(5)
    by (cases e) (simp_all add: fst_timer_callback update_fields_wheel_pos update_goalpose_def
          update_turtlepose_def update_tilt_def)
qed

lemma main_wheel_pos:
  "0 \<le> wheel_pos (fst (main now es))
   \<and> double_round (wheel_pos (fst (main now es))) = wheel_pos (fst (main now es))
   \<and> wheel_pos (fst (main now es)) \<le> 2 ^ 47"
proof (induction es rule: rev_induct)
  case Nil
  show ?case by (simp add: main_def init_fields double_round_def)
next
  case (snoc e es)
  have k: "wheel_omg (fst (main now es)) = 0.8" "dt (fst (main now es)) = 0.01"
    by (simp_all add: main_constants)
  from snoc have i: "0 \<le> wheel_pos (fst (main now es))"
    "double_round (wheel_pos (fst (main now es))) = wheel_pos (fst (main now es))"
    "wheel_pos (fst (main now es)) \<le> 2 ^ 47" by simp_all
  from dispatch_wheel_pos(2,3,4) [OF k i, of e] show ?case
    by (simp only: main_snoc fst_conv)
qed

lemma main_wheel_pos_mono:
  "wheel_pos (fst (main now es)) \<le> wheel_pos (fst (main now (es @ es')))"
proof (induction es' rule: rev_induct)
  case Nil
  show ?case by simp
next
  case (snoc e es')
  let ?S = "fst (main now (es @ es'))"
  have k: "wheel_omg ?S = 0.8" "dt ?S = 0.01" by (simp_all add: main_constants)
  from main_wheel_pos [of now "es @ es'"] have i: "0 \<le> wheel_pos ?S"
    "double_round (wheel_pos ?S) = wheel_pos ?S" "wheel_pos ?S \<le> 2 ^ 47" by simp_all
  have "wheel_pos ?S \<le> wheel_pos (fst (main now ((es @ es') @ [e])))"
    using dispatch_wheel_pos(1) [OF k i, of e] by (simp only: main_snoc fst_conv)
  with snoc show ?case by simp
qed

lemma first_tick_wheel_pos:
  "\<bar>wheel_pos (fst (main now [Timer time])) - 0.016\<bar> \<le> 1 / 10 ^ 17"
proof -
  let ?c = "double_round 0.008"
  define E :: real where "E = 1 / 10 ^ 17"
  define a :: real where "a = 0.008"
  have c: "1 / 128 \<le> ?c" "?c \<le> 1 / 64" by (rule double_round_0008)+
  have "\<bar>?c - 0.008\<bar> \<le> 0.008 / 2 ^ 53"
    by (rule double_round_error) simp
  moreover have "0.008 / 2 ^ 53 \<le> (1 / 10 ^ 17 :: real) / 4" by simp
  ultimately have e1: "\<bar>?c - a\<bar> \<le> E / 4" unfolding E_def a_def by (rule order_trans)
  have "0 < ?c + ?c" using c by simp
  from double_round_error [OF this]
  have "\<bar>double_round (?c + ?c) - (?c + ?c)\<bar> \<le> (?c + ?c) / 2 ^ 53" .
  moreover have "(?c + ?c) / 2 ^ 53 \<le> (1 / 32) / 2 ^ 53"
    using c by (intro divide_right_mono) simp_all
  moreover have "(1 / 32) / 2 ^ 53 \<le> (1 / 10 ^ 17 :: real) / 2" by simp
  ultimately have e2: "\<bar>double_round (?c + ?c) - (?c + ?c)\<bar> \<le> E / 2"
    unfolding E_def by linarith
  from e1 e2 have "\<bar>double_round (?c + ?c) - (a + a)\<bar> \<le> E" by linarith
  then have "\<bar>double_round (?c + ?c) - 0.016\<bar> \<le> 1 / 10 ^ 17"
    unfolding E_def a_def by simp
  moreover have "double_round ?c = ?c" by (rule double_round_idem) simp
  ultimately show ?thesis
    by (simp add: main_def case_prod_beta fst_timer_callback update_fields_wheel_pos
          init_fields float_add_def float_mul_def)
qed

lemma angle_zero: "angle_axis_to_quaternion 0 v = \<lparr>q_x = 0, q_y = 0, q_z = 0, q_w = 1\<rparr>"
  by (cases v) (simp add: angle_axis_to_quaternion_def)

lemma odom_base_fields:
  "ts_stamp (odom_base time s) = time"
  "ts_frame_id (odom_base time s) = ''odom''"
  "ts_child_frame_id (odom_base time s) = ''base_link''"
  "ts_translation (odom_base time s) = \<lparr>v3_x = x s, v3_y = y s, v3_z = 0\<rparr>"
  "ts_rotation (odom_base time s) = angle_axis_to_quaternion 0 (0, 0, 1)"
  by (simp_all add: odom_base_def Let_def TransformStamped_def Vector3_default_def)

lemma odometry_angular:
  "tw_angular (od_twist (odometry_msg time s)) = \<lparr>v3_x = 0, v3_y = 0, v3_z = swivel_omg s\<rparr>"
  by (simp add: odometry_msg_def Let_def Odometry_def Twist_default_def Vector3_default_def)

lemma init_sent:
  "snd (RunTurtle_init now) =
     [Static_tf \<lparr>ts_stamp = now, ts_frame_id = ''world'', ts_child_frame_id = ''odom'',
                 ts_translation = \<lparr>v3_x = 5.55, v3_y = 5.55, v3_z = 0\<rparr>,
                 ts_rotation = \<lparr>q_x = 0, q_y = 0, q_z = 0, q_w = 1\<rparr>\<rparr>,
      Log_info ''Static Transform: world->odom'']"
  by (simp add: RunTurtle_init_def Let_def TransformStamped_def Quaternion_default_def)

lemma dispatch_no_static: "filter is_static_tf (snd (dispatch e s)) = []"
  by (cases e) (simp_all add: snd_timer_callback update_goalpose_def
        update_turtlepose_def update_tilt_def)

lemma main_static:
  "filter is_static_tf (snd (main now es)) = filter is_static_tf (snd (RunTurtle_init now))"
proof (induction es rule: rev_induct)
  case Nil
  show ?case by (simp add: main_def)
next
  case (snoc e es)
  then show ?case by (simp add: main_snoc dispatch_no_static)
qed

lemma dispatch_angular:
  "swivel_omg s = 0 \<Longrightarrow>
   set (concat (map angular_rates (snd (dispatch e s)))) \<subseteq> {\<lparr>v3_x = 0, v3_y = 0, v3_z = 0\<rparr>}"
  by (cases e) (simp_all add: snd_timer_callback update_goalpose_def update_turtlepose_def
        update_tilt_def odometry_angular turtle_twist_def update_fields_frame)

lemma main_angular:
  "set (concat (map angular_rates (snd (main now es)))) \<subseteq> {\<lparr>v3_x = 0, v3_y = 0, v3_z = 0\<rparr>}"
proof (induction es rule: rev_induct)
  case Nil
  show ?case by (simp add: main_def init_sent)
next
  case (snoc e es)
  have "set (concat (map angular_rates (snd (dispatch e (fst (main now es))))))
          \<subseteq> {\<lparr>v3_x = 0, v3_y = 0, v3_z = 0\<rparr>}"
    by (rule dispatch_angular) (simp add: main_constants)
  with snoc show ?case by (simp add: main_snoc)
qed

lemma update_fields_turtlepose:
  "update_fields (s\<lparr>turtlepose := p\<rparr>) = (update_fields s)\<lparr>turtlepose := p\<rparr>"
  by (simp add: update_fields_def Let_def)

section \<open>The first tick\<close>

text \<open>
  Bounds on \<open>arctan\<close> from its alternating series, each by the sign of a derivative: the
  difference to the partial sum has derivative \<open>t\<^sup>6 / (1 + t\<^sup>2)\<close>, respectively
  \<open>t\<^sup>8 / (1 + t\<^sup>2)\<close>.
\<close>

lemma arctan_upper:
  assumes "0 \<le> (u::real)"
  shows "arctan u \<le> u - u^3 / 3 + u^5 / 5"
proof -
  let ?g = "\<lambda>t::real. t - t^3 / 3 + t^5 / 5 - arctan t"
  have "?g 0 \<le> ?g u"
  proof (rule DERIV_nonneg_imp_nondecreasing [OF assms])
    fix t :: real
    assume "0 \<le> t" "t \<le> u"
    have pos: "1 + t\<^sup>2 \<noteq> 0" using zero_le_power2 [of t] by linarith
    have "(?g has_real_derivative (1 - t^2 + t^4 - inverse (1 + t\<^sup>2))) (at t)"
      by (auto intro!: derivative_eq_intros)
    moreover have "1 - t^2 + t^4 - inverse (1 + t\<^sup>2) = t^6 / (1 + t\<^sup>2)"
      using pos by (simp add: field_simps)
    moreover have "0 \<le> t^6 / (1 + t\<^sup>2)" by (simp add: \<open>0 \<le> t\<close>)
    ultimately show "\<exists>d. (?g has_real_derivative d) (at t) \<and> 0 \<le> d" by auto
  qed
  then show ?thesis by simp
qed

lemma arctan_lower:
  assumes "0 \<le> (u::real)"
  shows "u - u^3 / 3 + u^5 / 5 - u^7 / 7 \<le> arctan u"
proof -
  let ?g = "\<lambda>t::real. arctan t - (t - t^3 / 3 + t^5 / 5 - t^7 / 7)"
  have "?g 0 \<le> ?g u"
  proof (rule DERIV_nonneg_imp_nondecreasing [OF assms])
    fix t :: real
    assume "0 \<le> t" "t \<le> u"
    have pos: "1 + t\<^sup>2 \<noteq> 0" using zero_le_power2 [of t] by linarith
    have "(?g has_real_derivative (inverse (1 + t\<^sup>2) - (1 - t^2 + t^4 - t^6))) (at t)"
      by (auto intro!: derivative_eq_intros)
    moreover have "inverse (1 + t\<^sup>2) - (1 - t^2 + t^4 - t^6) = t^8 / (1 + t\<^sup>2)"
      using pos by (simp add: field_simps)
    moreover have "0 \<le> t^8 / (1 + t\<^sup>2)" by (simp add: \<open>0 \<le> t\<close>)
    ultimately show "\<exists>d. (?g has_real_derivative d) (at t) \<and> 0 \<le> d" by auto
  qed
  then show ?thesis by simp
qed

lemma first_heading_bounds:
  "0.398 < arctan (1.45 / 3.4474112 :: real)" "arctan (1.45 / 3.4474112 :: real) < 0.3985"
proof -
  let ?u = "1.45 / 3.4474112 :: real"
  have "0 \<le> ?u" by simp
  from arctan_lower [OF this] arctan_upper [OF this]
  have "?u - ?u^3 / 3 + ?u^5 / 5 - ?u^7 / 7 \<le> arctan ?u"
       "arctan ?u \<le> ?u - ?u^3 / 3 + ?u^5 / 5" by blast+
  moreover have "0.398 < ?u - ?u^3 / 3 + ?u^5 / 5 - ?u^7 / 7" by (simp add: field_simps)
  moreover have "?u - ?u^3 / 3 + ?u^5 / 5 < 0.3985" by (simp add: field_simps)
  ultimately show "0.398 < arctan ?u" "arctan ?u < 0.3985" by linarith+
qed

lemma theta_first_tick: "theta (fst (main now [Timer time])) = arctan (1.45 / 3.4474112)"
  by (simp add: main_def case_prod_beta fst_timer_callback update_fields_theta init_fields
        atan2_def)

lemma first_tick_fields:
  "x (fst (main now [Timer time])) = 0.0025888"
  "y (fst (main now [Timer time])) = 0"
  by (simp_all add: main_def case_prod_beta fst_timer_callback update_fields_x update_fields_y
        init_fields)

section \<open>The claims\<close>

text \<open>
  C1.  In every tick the heading is computed afresh, after the position step, as
  \<open>atan2(targetY - y, targetX - x)\<close> at the position the same tick has just reached; the
  goal fields are not touched by the tick.  This heading is what the joint snapshot
  publishes for the joint \<open>swivel\<close>.  When the goal coincides with the new position the
  heading is 0, the value of \<open>atan2\<close> at the origin.  The tick has no failing branch: it
  returns a state and its four messages from every state.
\<close>

theorem heading_points_at_goal:
  "theta (fst (timer_callback time s)) =
     atan2 (targetY (fst (timer_callback time s)) - y (fst (timer_callback time s)))
           (targetX (fst (timer_callback time s)) - x (fst (timer_callback time s)))
   \<and> targetX (fst (timer_callback time s)) = targetX s
   \<and> targetY (fst (timer_callback time s)) = targetY s
   \<and> x (fst (timer_callback time s)) = x s + vx s * dt s
   \<and> y (fst (timer_callback time s)) = y s + vy s * dt s
   \<and> (\<exists>m. hd (snd (timer_callback time s)) = Joint_states m
          \<and> js_name m ! 1 = ''swivel''
          \<and> js_position m ! 1 = Finite (theta (fst (timer_callback time s))))
   \<and> (targetX s = x (fst (timer_callback time s))
        \<and> targetY s = y (fst (timer_callback time s))
        \<longrightarrow> theta (fst (timer_callback time s)) = 0)"
  by (simp add: fst_timer_callback snd_timer_callback update_fields_theta update_fields_x
        update_fields_y update_fields_frame joints_states_msg_def JointState_def atan2_origin)

text \<open>
  C1, witness.  A state standing on the goal with no velocity: the tick leaves it on the
  goal and its heading is 0.
\<close>

theorem heading_points_at_goal_witness:
  "targetX ((fst (RunTurtle_init 0))\<lparr>x := 3.45, y := 1.45, vx := 0, vy := 0\<rparr>) =
     x (fst (timer_callback 1 ((fst (RunTurtle_init 0))\<lparr>x := 3.45, y := 1.45, vx := 0, vy := 0\<rparr>)))
   \<and> targetY ((fst (RunTurtle_init 0))\<lparr>x := 3.45, y := 1.45, vx := 0, vy := 0\<rparr>) =
     y (fst (timer_callback 1 ((fst (RunTurtle_init 0))\<lparr>x := 3.45, y := 1.45, vx := 0, vy := 0\<rparr>)))
   \<and> theta (fst (timer_callback 1 ((fst (RunTurtle_init 0))\<lparr>x := 3.45, y := 1.45, vx := 0, vy := 0\<rparr>))) = 0"
  using heading_points_at_goal [of 1 "(fst (RunTurtle_init 0))\<lparr>x := 3.45, y := 1.45, vx := 0, vy := 0\<rparr>"]
  by (simp add: fst_timer_callback update_fields_x update_fields_y init_fields)

text \<open>
  C2.  The run in which the goal update \<open>(-3, 0)\<close> arrives before the first tick.  The
  update is stored in \<open>goalpose\<close>, but the heading of the tick is the bearing of the
  startup target \<open>(9 - 5.55, 7 - 5.55)\<close>, the same as in the run without the update, and
  lies below \<open>\<pi>/2\<close>; the bearing of the commanded goal from the position reached would be
  \<open>\<pi>\<close>.  After any sequence of events, goal updates among them, the target the heading
  is computed from is still the startup target.
\<close>

theorem goal_update_does_not_steer:
  "goalpose (fst (main 0 [Goal_pose
       (PoseStamped\<lparr>ps_position := \<lparr>v3_x = Finite (- 3), v3_y = Finite 0, v3_z = Finite 0\<rparr>\<rparr>),
       Timer 1])) =
     PoseStamped\<lparr>ps_position := \<lparr>v3_x = Finite (- 3), v3_y = Finite 0, v3_z = Finite 0\<rparr>\<rparr>
   \<and> theta (fst (main 0 [Goal_pose
       (PoseStamped\<lparr>ps_position := \<lparr>v3_x = Finite (- 3), v3_y = Finite 0, v3_z = Finite 0\<rparr>\<rparr>),
       Timer 1])) = atan2 (1.45 - 0) (3.45 - 0.0025888)
   \<and> theta (fst (main 0 [Goal_pose
       (PoseStamped\<lparr>ps_position := \<lparr>v3_x = Finite (- 3), v3_y = Finite 0, v3_z = Finite 0\<rparr>\<rparr>),
       Timer 1])) = theta (fst (main 0 [Timer 1]))
   \<and> theta (fst (main 0 [Goal_pose
       (PoseStamped\<lparr>ps_position := \<lparr>v3_x = Finite (- 3), v3_y = Finite 0, v3_z = Finite 0\<rparr>\<rparr>),
       Timer 1])) < pi / 2
   \<and> atan2 (0 - 0) (- 3 - 0.0025888) = pi
   \<and> targetX (fst (main now es)) = 9 - 5.55
   \<and> targetY (fst (main now es)) = 7 - 5.55"
proof -
  have "arctan (453125 / 1077316 :: real) < pi / 2" by (rule arctan_ubound)
  then show ?thesis
    by (simp add: main_constants)
       (simp add: main_def case_prod_beta fst_timer_callback update_fields_theta
          update_fields_frame init_fields update_goalpose_def atan2_def)
qed

text \<open>
  C3.  Within a tick the position is advanced first, by the velocity the state held when
  the tick began; the heading is then computed at the new position and the velocity from
  the new heading.  The refreshed velocity is first used by the position step of the next
  tick: the velocity that moves the vehicle lags the heading by one tick.
\<close>

theorem position_step_precedes_heading:
  "x (fst (timer_callback time s)) = x s + vx s * dt s
   \<and> y (fst (timer_callback time s)) = y s + vy s * dt s
   \<and> theta (fst (timer_callback time s)) =
       atan2 (targetY s - (y s + vy s * dt s)) (targetX s - (x s + vx s * dt s))
   \<and> vx (fst (timer_callback time s)) =
       wheel_radius s * wheel_omg s * cos (theta (fst (timer_callback time s)))
   \<and> vy (fst (timer_callback time s)) =
       wheel_radius s * wheel_omg s * sin (theta (fst (timer_callback time s)))
   \<and> x (fst (timer_callback time' (fst (timer_callback time s)))) =
       x (fst (timer_callback time s)) +
       wheel_radius s * wheel_omg s * cos (theta (fst (timer_callback time s))) * dt s
   \<and> y (fst (timer_callback time' (fst (timer_callback time s)))) =
       y (fst (timer_callback time s)) +
       wheel_radius s * wheel_omg s * sin (theta (fst (timer_callback time s))) * dt s"
  by (simp add: fst_timer_callback update_fields_theta update_fields_x
        update_fields_y update_fields_vx update_fields_vy update_fields_frame)

text \<open>
  C4, as stated, fails.  In the state whose accumulator holds \<open>2\<^sup>4\<^sup>7\<close>, a tick leaves the
  accumulator where it is: both additions are absorbed by rounding, and the total
  increment is not \<open>2 \<cdot> wheel_omg \<cdot> dt\<close>.  No run takes the accumulator above \<open>2\<^sup>4\<^sup>7\<close>, so
  it is not unbounded.
\<close>

theorem wheel_pos_stalls:
  "wheel_pos (fst (timer_callback 1 ((fst (RunTurtle_init 0))\<lparr>wheel_pos := 2 ^ 47\<rparr>))) = 2 ^ 47
   \<and> wheel_pos (fst (timer_callback 1 ((fst (RunTurtle_init 0))\<lparr>wheel_pos := 2 ^ 47\<rparr>))) \<noteq>
       wheel_pos ((fst (RunTurtle_init 0))\<lparr>wheel_pos := 2 ^ 47\<rparr>) +
       2 * (wheel_omg ((fst (RunTurtle_init 0))\<lparr>wheel_pos := 2 ^ 47\<rparr>) *
            dt ((fst (RunTurtle_init 0))\<lparr>wheel_pos := 2 ^ 47\<rparr>))
   \<and> \<not> (\<exists>now es. 2 ^ 47 < wheel_pos (fst (main now es)))"
proof -
  have c: "0 \<le> float_mul 0.8 0.01" "float_mul 0.8 0.01 \<le> 1 / 64"
    using increment_bounds by simp_all
  have one: "float_add (2 ^ 47) (float_mul 0.8 0.01) = 2 ^ 47"
    unfolding float_add_def by (rule double_round_absorbs [OF c])
  have "\<And>now es. wheel_pos (fst (main now es)) \<le> 2 ^ 47"
    using main_wheel_pos by blast
  then have "\<not> (\<exists>now es. 2 ^ 47 < wheel_pos (fst (main now es)))"
    by (simp add: not_less)
  then show ?thesis
    using one by (simp add: fst_timer_callback update_fields_wheel_pos init_fields)
qed

text \<open>
  C4, amended.  A tick adds \<open>wheel_omg \<cdot> dt\<close> to the wheel accumulator twice, each product and
  each sum rounded to a double.  After any sequence of events the accumulator does not
  decrease when more events follow.  It is bounded: it lies between 0 and \<open>2\<^sup>4\<^sup>7\<close> after
  every run.  While it is small the increment of a tick is \<open>2 \<cdot> wheel_omg \<cdot> dt\<close> up to
  rounding: after the first tick the accumulator is within \<open>10\<^sup>-\<^sup>1\<^sup>7\<close> of 0.016.
\<close>

theorem wheel_pos_advances_twice_rounded:
  "wheel_pos (fst (timer_callback time s)) =
     float_add (float_add (wheel_pos s) (float_mul (wheel_omg s) (dt s)))
       (float_mul (wheel_omg s) (dt s))
   \<and> wheel_pos (fst (main now es)) \<le> wheel_pos (fst (main now (es @ es')))
   \<and> 0 \<le> wheel_pos (fst (main now es))
   \<and> wheel_pos (fst (main now es)) \<le> 2 ^ 47
   \<and> \<bar>wheel_pos (fst (main now [Timer time'])) - 0.016\<bar> \<le> 1 / 10 ^ 17"
  using main_wheel_pos [of now es] main_wheel_pos_mono [of now es es']
    first_tick_wheel_pos [of now time']
  by (simp only: fst_timer_callback update_fields_wheel_pos simp_thms)

text \<open>
  C5.  The second message of a tick is the transform from \<open>odom\<close> to \<open>base_link\<close>, with
  translation \<open>(x, y, 0)\<close> at the updated position and the rotation built for the angle 0
  about the vertical axis.  By the axis-angle rule the angle 0 gives the identity
  quaternion, scalar part 1 and vector part 0, whatever the axis; so the rotation sent is
  the identity.
\<close>

theorem odom_base_rotation_is_identity:
  "snd (timer_callback time s) ! 1 = Tf (odom_base time (fst (timer_callback time s)))
   \<and> ts_frame_id (odom_base time (fst (timer_callback time s))) = ''odom''
   \<and> ts_child_frame_id (odom_base time (fst (timer_callback time s))) = ''base_link''
   \<and> ts_translation (odom_base time (fst (timer_callback time s))) =
       \<lparr>v3_x = x (fst (timer_callback time s)), v3_y = y (fst (timer_callback time s)),
        v3_z = 0\<rparr>
   \<and> ts_rotation (odom_base time (fst (timer_callback time s))) =
       angle_axis_to_quaternion 0 (0, 0, 1)
   \<and> angle_axis_to_quaternion a (v0, v1, v2) =
       \<lparr>q_x = sin (a / 2) * v0, q_y = sin (a / 2) * v1, q_z = sin (a / 2) * v2,
        q_w = cos (a / 2)\<rparr>
   \<and> angle_axis_to_quaternion 0 v = \<lparr>q_x = 0, q_y = 0, q_z = 0, q_w = 1\<rparr>
   \<and> ts_rotation (odom_base time (fst (timer_callback time s))) =
       \<lparr>q_x = 0, q_y = 0, q_z = 0, q_w = 1\<rparr>"
  by (simp add: fst_timer_callback snd_timer_callback odom_base_fields angle_zero)
     (simp add: angle_axis_to_quaternion_def)

text \<open>
  C6.  Construction sends the static transform from \<open>world\<close> to \<open>odom\<close>, with translation
  \<open>(5.55, 5.55, 0)\<close> and the identity rotation.  No callback sends a static transform or
  changes a stored offset field.  So among everything the node sends in a run the static
  transform occurs exactly once, and the offset fields hold their startup values after any
  sequence of events.
\<close>

theorem static_transform_sent_once:
  "snd (RunTurtle_init now) =
     [Static_tf \<lparr>ts_stamp = now, ts_frame_id = ''world'', ts_child_frame_id = ''odom'',
                 ts_translation = \<lparr>v3_x = 5.55, v3_y = 5.55, v3_z = 0\<rparr>,
                 ts_rotation = \<lparr>q_x = 0, q_y = 0, q_z = 0, q_w = 1\<rparr>\<rparr>,
      Log_info ''Static Transform: world->odom'']
   \<and> filter is_static_tf (snd (dispatch e s)) = []
   \<and> world_odom_x (fst (dispatch e s)) = world_odom_x s
   \<and> world_odom_y (fst (dispatch e s)) = world_odom_y s
   \<and> world_odom_z (fst (dispatch e s)) = world_odom_z s
   \<and> filter is_static_tf (snd (main now es)) =
       [Static_tf \<lparr>ts_stamp = now, ts_frame_id = ''world'', ts_child_frame_id = ''odom'',
                   ts_translation = \<lparr>v3_x = 5.55, v3_y = 5.55, v3_z = 0\<rparr>,
                   ts_rotation = \<lparr>q_x = 0, q_y = 0, q_z = 0, q_w = 1\<rparr>\<rparr>]
   \<and> world_odom_x (fst (main now es)) = 5.55
   \<and> world_odom_y (fst (main now es)) = 5.55
   \<and> world_odom_z (fst (main now es)) = 0"
  by (simp add: main_static dispatch_no_static dispatch_constants main_constants init_sent)

text \<open>
  C7.  After the velocity refresh of a tick, \<open>vx = r \<cdot> \<omega> \<cdot> cos \<theta>\<close> and
  \<open>vy = r \<cdot> \<omega> \<cdot> sin \<theta>\<close> for the heading the same tick has just computed.  In every
  state the node reaches, after any sequence of ticks and updates,
  \<open>vx\<^sup>2 + vy\<^sup>2 = (r \<cdot> \<omega>)\<^sup>2\<close>: the linear speed is the constant 0.25888.
\<close>

theorem speed_is_constant:
  "vx (fst (timer_callback time s)) =
     wheel_radius s * wheel_omg s * cos (theta (fst (timer_callback time s)))
   \<and> vy (fst (timer_callback time s)) =
     wheel_radius s * wheel_omg s * sin (theta (fst (timer_callback time s)))
   \<and> (vx (fst (main now es)))\<^sup>2 + (vy (fst (main now es)))\<^sup>2 =
     (wheel_radius (fst (main now es)) * wheel_omg (fst (main now es)))\<^sup>2
   \<and> wheel_radius (fst (main now es)) * wheel_omg (fst (main now es)) = 0.25888"
proof -
  let ?S = "fst (main now es)"
  let ?a = "wheel_radius ?S * wheel_omg ?S"
  have "(?a * cos (theta ?S))\<^sup>2 + (?a * sin (theta ?S))\<^sup>2 =
        ?a\<^sup>2 * ((cos (theta ?S))\<^sup>2 + (sin (theta ?S))\<^sup>2)"
    unfolding power_mult_distrib distrib_left ..
  also have "\<dots> = ?a\<^sup>2" by simp
  finally have "(vx ?S)\<^sup>2 + (vy ?S)\<^sup>2 = ?a\<^sup>2"
    using main_velocity [of now es] by simp
  then show ?thesis
    by (simp add: fst_timer_callback update_fields_vx update_fields_vy main_constants)
qed

text \<open>
  C8, as stated, fails.  A goal update whose \<open>x\<close> coordinate is NaN, received in the
  initial state: the stored goal is replaced by it, so the NaN is now in the state, and
  nothing is sent, so no warning is surfaced.
\<close>

theorem nonfinite_goal_is_stored:
  "\<not> isfinite (v3_x (ps_position
        (PoseStamped\<lparr>ps_position := \<lparr>v3_x = NaN, v3_y = Finite 0, v3_z = Finite 0\<rparr>\<rparr>)))
   \<and> goalpose (fst (update_goalpose
        (PoseStamped\<lparr>ps_position := \<lparr>v3_x = NaN, v3_y = Finite 0, v3_z = Finite 0\<rparr>\<rparr>)
        (fst (RunTurtle_init 0)))) \<noteq> goalpose (fst (RunTurtle_init 0))
   \<and> v3_x (ps_position (goalpose (fst (update_goalpose
        (PoseStamped\<lparr>ps_position := \<lparr>v3_x = NaN, v3_y = Finite 0, v3_z = Finite 0\<rparr>\<rparr>)
        (fst (RunTurtle_init 0)))))) = NaN
   \<and> snd (update_goalpose
        (PoseStamped\<lparr>ps_position := \<lparr>v3_x = NaN, v3_y = Finite 0, v3_z = Finite 0\<rparr>\<rparr>)
        (fst (RunTurtle_init 0))) = []"
  by (simp add: update_goalpose_def init_fields PoseStamped_def)

text \<open>
  C8, amended.  The goal and pose handlers store every message as received, with no test
  of its coordinates, and send nothing.  The stored pose observation is not read by the
  tick: after a pose update the tick computes the same fields and sends the same four
  messages as it would have without the update.
\<close>

theorem updates_stored_unchecked:
  "update_goalpose data s = (s\<lparr>goalpose := data\<rparr>, [])
   \<and> goalpose (fst (update_goalpose data s)) = data
   \<and> update_turtlepose data' s = (s\<lparr>turtlepose := Some data'\<rparr>, [])
   \<and> turtlepose (fst (update_turtlepose data' s)) = Some data'
   \<and> timer_callback time (fst (update_turtlepose data' s)) =
       ((fst (timer_callback time s))\<lparr>turtlepose := Some data'\<rparr>, snd (timer_callback time s))"
  by (simp add: update_goalpose_def update_turtlepose_def timer_callback_def Let_def
        update_fields_turtlepose joints_states_msg_def odom_base_def odometry_msg_def)

text \<open>
  C9, as stated, fails.  In the scenario the heading after the first tick is further than
  0.28 rad from 0.6847 rad.
\<close>

theorem first_heading_is_not_0_6847:
  "\<not> \<bar>theta (fst (main 0 [Timer 1])) - 0.6847\<bar> < 0.28"
  using first_heading_bounds by (simp add: theta_first_tick)

text \<open>
  C9, amended.  The initial state holds the constants of the scenario.  The first tick
  moves the position by the velocity of the initial heading 0, that is by
  \<open>(0.3236 \<cdot> 0.8 \<cdot> cos 0 \<cdot> 0.01, 0.3236 \<cdot> 0.8 \<cdot> sin 0 \<cdot> 0.01) = (0.0025888, 0)\<close>; the heading
  is then \<open>atan2(7 - 5.55 - 0, 9 - 5.55 - 0.0025888)\<close>, which lies between 0.398 and 0.3985
  rad, and the velocity is refreshed from that heading.
\<close>

theorem first_tick_scenario:
  "world_odom_x (fst (main now [])) = 5.55 \<and> world_odom_y (fst (main now [])) = 5.55
   \<and> world_odom_z (fst (main now [])) = 0
   \<and> targetX (fst (main now [])) = 9 - 5.55 \<and> targetY (fst (main now [])) = 7 - 5.55
   \<and> wheel_radius (fst (main now [])) = 0.3236 \<and> wheel_omg (fst (main now [])) = 0.8
   \<and> dt (fst (main now [])) = 0.01
   \<and> x (fst (main now [])) = 0 \<and> y (fst (main now [])) = 0 \<and> theta (fst (main now [])) = 0
   \<and> x (fst (main now [Timer time])) = 0 + 0.3236 * 0.8 * cos 0 * 0.01
   \<and> y (fst (main now [Timer time])) = 0 + 0.3236 * 0.8 * sin 0 * 0.01
   \<and> x (fst (main now [Timer time])) = 0.0025888
   \<and> y (fst (main now [Timer time])) = 0
   \<and> theta (fst (main now [Timer time])) = atan2 (7 - 5.55 - 0) (9 - 5.55 - 0.0025888)
   \<and> 0.398 < theta (fst (main now [Timer time]))
   \<and> theta (fst (main now [Timer time])) < 0.3985
   \<and> vx (fst (main now [Timer time])) = 0.3236 * 0.8 * cos (theta (fst (main now [Timer time])))
   \<and> vy (fst (main now [Timer time])) = 0.3236 * 0.8 * sin (theta (fst (main now [Timer time])))"
proof -
  have "theta (fst (main now [Timer time])) = atan2 (7 - 5.55 - 0) (9 - 5.55 - 0.0025888)"
    by (simp add: theta_first_tick atan2_def)
  moreover have "vx (fst (main now [Timer time])) =
      0.3236 * 0.8 * cos (theta (fst (main now [Timer time])))"
    and "vy (fst (main now [Timer time])) =
      0.3236 * 0.8 * sin (theta (fst (main now [Timer time])))"
    using main_velocity [of now "[Timer time]"] by (simp_all add: main_constants)
  moreover have "0.398 < theta (fst (main now [Timer time]))"
    and "theta (fst (main now [Timer time])) < 0.3985"
    using first_heading_bounds by (simp_all add: theta_first_tick)
  moreover have "x (fst (main now [])) = 0 \<and> y (fst (main now [])) = 0
      \<and> theta (fst (main now [])) = 0"
    by (simp add: main_def init_fields)
  ultimately show ?thesis
    by (simp add: main_constants first_tick_fields)
qed

text \<open>
  C10.  The swivel rate is 0 after any sequence of events.  Every angular velocity the node
  ever publishes, in an odometry twist or in a velocity command, is the zero vector; each
  tick publishes two of them.  The heading does change meanwhile: after the first tick it
  differs from the initial heading.
\<close>

theorem angular_rate_is_zero:
  "swivel_omg (fst (main now es)) = 0
   \<and> set (concat (map angular_rates (snd (main now es)))) \<subseteq> {\<lparr>v3_x = 0, v3_y = 0, v3_z = 0\<rparr>}
   \<and> concat (map angular_rates (snd (timer_callback time (fst (main now es))))) =
       [\<lparr>v3_x = 0, v3_y = 0, v3_z = 0\<rparr>, \<lparr>v3_x = 0, v3_y = 0, v3_z = 0\<rparr>]
   \<and> theta (fst (main now [Timer time])) \<noteq> theta (fst (main now []))"
proof -
  have "theta (fst (main now [])) = 0" by (simp add: main_def init_fields)
  moreover have "theta (fst (main now [Timer time])) \<noteq> 0"
    unfolding theta_first_tick by simp
  ultimately show ?thesis
    using main_angular [of now es]
    by (simp add: main_constants snd_timer_callback odometry_angular
          turtle_twist_def update_fields_frame)
qed

end
